theory Spec2Isabelle
  imports Complex_Main
begin

section \<open>Exception taxonomy (utils/exceptions.py)\<close>

text \<open>
  The classes of \<^verbatim>\<open>utils/exceptions.py\<close>, together with the built-in classes the
  retry module names (\<^verbatim>\<open>Exception\<close>, the default retryable tuple, and
  \<^verbatim>\<open>ValueError\<close>, \<^verbatim>\<open>ConnectionError\<close>, \<^verbatim>\<open>IOError\<close> = \<^verbatim>\<open>OSError\<close> of its usage
  examples) and those its own statements can raise: \<^verbatim>\<open>OverflowError\<close> from
  \<^verbatim>\<open>exponential_base ** attempt\<close>, \<^verbatim>\<open>AttributeError\<close> from \<^verbatim>\<open>func.__name__\<close>, and
  \<^verbatim>\<open>KeyError\<close>, \<^verbatim>\<open>IndexError\<close>, \<^verbatim>\<open>ValueError\<close> from the formatting of a log
  message. Every value raised in the model is an instance of \<^verbatim>\<open>Exception\<close>, as the
  annotations \<^verbatim>\<open>Type[Exception]\<close> and \<^verbatim>\<open>Callable[[Exception, int], None]\<close> of the
  source say; interpreter signals that derive from \<^verbatim>\<open>BaseException\<close> only are not
  part of it.
\<close>

datatype exc_class =
    Exception
  | ValueError
  | OSError
  | ConnectionError
  | LookupError
  | KeyError
  | IndexError
  | ArithmeticError
  | OverflowError
  | AttributeError
  | ContestTradeException
  | ConfigurationError
  | ValidationError
  | DataSourceError
  | DataFetchError
  | DataParseError
  | APIError
  | APITimeoutError
  | APIRateLimitError
  | LLMError
  | LLMResponseError
  | LLMParseError
  | AgentError
  | AgentTimeoutError
  | ToolError
  | ToolNotFoundError
  | MarketError
  | InvalidMarketError
  | InvalidSymbolError
  | SignalParseError
  | FactorParseError

text \<open>The base written in each \<^verbatim>\<open>class C(B)\<close> statement.\<close>

fun base :: "exc_class \<Rightarrow> exc_class option" where
  "base Exception = None"
| "base ValueError = Some Exception"
| "base OSError = Some Exception"
| "base ConnectionError = Some OSError"
| "base LookupError = Some Exception"
| "base KeyError = Some LookupError"
| "base IndexError = Some LookupError"
| "base ArithmeticError = Some Exception"
| "base OverflowError = Some ArithmeticError"
| "base AttributeError = Some Exception"
| "base ContestTradeException = Some Exception"
| "base ConfigurationError = Some ContestTradeException"
| "base ValidationError = Some ContestTradeException"
| "base DataSourceError = Some ContestTradeException"
| "base DataFetchError = Some DataSourceError"
| "base DataParseError = Some DataSourceError"
| "base APIError = Some ContestTradeException"
| "base APITimeoutError = Some APIError"
| "base APIRateLimitError = Some APIError"
| "base LLMError = Some ContestTradeException"
| "base LLMResponseError = Some LLMError"
| "base LLMParseError = Some LLMError"
| "base AgentError = Some ContestTradeException"
| "base AgentTimeoutError = Some AgentError"
| "base ToolError = Some ContestTradeException"
| "base ToolNotFoundError = Some ToolError"
| "base MarketError = Some ContestTradeException"
| "base InvalidMarketError = Some MarketError"
| "base InvalidSymbolError = Some MarketError"
| "base SignalParseError = Some ContestTradeException"
| "base FactorParseError = Some ContestTradeException"

text \<open>Distance of a class from \<^verbatim>\<open>Exception\<close>; it only serves the termination of \<open>mro\<close>.\<close>

fun depth :: "exc_class \<Rightarrow> nat" where
  "depth Exception = 0"
| "depth ValueError = 1"
| "depth OSError = 1"
| "depth ConnectionError = 2"
| "depth LookupError = 1"
| "depth KeyError = 2"
| "depth IndexError = 2"
| "depth ArithmeticError = 1"
| "depth OverflowError = 2"
| "depth AttributeError = 1"
| "depth ContestTradeException = 1"
| "depth ConfigurationError = 2"
| "depth ValidationError = 2"
| "depth DataSourceError = 2"
| "depth DataFetchError = 3"
| "depth DataParseError = 3"
| "depth APIError = 2"
| "depth APITimeoutError = 3"
| "depth APIRateLimitError = 3"
| "depth LLMError = 2"
| "depth LLMResponseError = 3"
| "depth LLMParseError = 3"
| "depth AgentError = 2"
| "depth AgentTimeoutError = 3"
| "depth ToolError = 2"
| "depth ToolNotFoundError = 3"
| "depth MarketError = 2"
| "depth InvalidMarketError = 3"
| "depth InvalidSymbolError = 3"
| "depth SignalParseError = 2"
| "depth FactorParseError = 2"

lemma base_depth: "base k = Some p \<Longrightarrow> depth p < depth k"
  by (cases k) auto

text \<open>
  The method resolution order of a class: the class itself, then that of its base
  (single inheritance throughout).
\<close>

function mro :: "exc_class \<Rightarrow> exc_class list" where
  "mro k = k # (case base k of None \<Rightarrow> [] | Some p \<Rightarrow> mro p)"
  by pat_completeness auto
termination
  by (relation "measure depth") (auto simp: base_depth)

declare mro.simps [simp del]

text \<open>
  Python's \<^verbatim>\<open>issubclass(C, B)\<close> holds when \<^verbatim>\<open>B\<close> occurs in the method resolution
  order of \<^verbatim>\<open>C\<close>; with a tuple as second argument, when it holds for one entry.
  An \<^verbatim>\<open>except exceptions as e\<close> clause applies the same test to \<^verbatim>\<open>type(e)\<close>.
\<close>

definition issubclass1 :: "exc_class \<Rightarrow> exc_class \<Rightarrow> bool" where
  "issubclass1 k c = (c \<in> set (mro k))"

definition issubclass :: "exc_class \<Rightarrow> exc_class list \<Rightarrow> bool" where
  "issubclass k cs = list_ex (issubclass1 k) cs"

text \<open>
  An exception object: its class (\<^verbatim>\<open>type(e)\<close>) and the text \<^verbatim>\<open>str(e)\<close> gives.
\<close>

datatype exc = Exc (exc_type: exc_class) (exc_msg: string)

text \<open>\<^verbatim>\<open>type(e).__name__\<close>.\<close>

fun class_name :: "exc_class \<Rightarrow> string" where
  "class_name Exception = ''Exception''"
| "class_name ValueError = ''ValueError''"
| "class_name OSError = ''OSError''"
| "class_name ConnectionError = ''ConnectionError''"
| "class_name LookupError = ''LookupError''"
| "class_name KeyError = ''KeyError''"
| "class_name IndexError = ''IndexError''"
| "class_name ArithmeticError = ''ArithmeticError''"
| "class_name OverflowError = ''OverflowError''"
| "class_name AttributeError = ''AttributeError''"
| "class_name ContestTradeException = ''ContestTradeException''"
| "class_name ConfigurationError = ''ConfigurationError''"
| "class_name ValidationError = ''ValidationError''"
| "class_name DataSourceError = ''DataSourceError''"
| "class_name DataFetchError = ''DataFetchError''"
| "class_name DataParseError = ''DataParseError''"
| "class_name APIError = ''APIError''"
| "class_name APITimeoutError = ''APITimeoutError''"
| "class_name APIRateLimitError = ''APIRateLimitError''"
| "class_name LLMError = ''LLMError''"
| "class_name LLMResponseError = ''LLMResponseError''"
| "class_name LLMParseError = ''LLMParseError''"
| "class_name AgentError = ''AgentError''"
| "class_name AgentTimeoutError = ''AgentTimeoutError''"
| "class_name ToolError = ''ToolError''"
| "class_name ToolNotFoundError = ''ToolNotFoundError''"
| "class_name MarketError = ''MarketError''"
| "class_name InvalidMarketError = ''InvalidMarketError''"
| "class_name InvalidSymbolError = ''InvalidSymbolError''"
| "class_name SignalParseError = ''SignalParseError''"
| "class_name FactorParseError = ''FactorParseError''"

section \<open>The platform: float arithmetic, randomness, logging\<close>

text \<open>
  The retry module calls into the interpreter and into libraries whose code is not part
  of the repository. What they do is a parameter of the model:
  \<^item> \<open>float_pow x k\<close> is \<^verbatim>\<open>x ** k\<close> for a float \<^verbatim>\<open>x\<close> and an integer \<^verbatim>\<open>k \<ge> 0\<close>: the
    float result, or the \<^verbatim>\<open>OverflowError\<close> the interpreter raises when the result
    is out of the float range;
  \<^item> \<open>float_mul x y\<close> is the float product \<^verbatim>\<open>x * y\<close>, rounded as the machine rounds;
  \<^item> \<open>random_uniform n a b\<close> is the value \<^verbatim>\<open>random.uniform(a, b)\<close> returns when it is
    the \<open>n\<close>-th draw of the execution (counting from 0);
  \<^item> \<open>logger_error text\<close> is what \<^verbatim>\<open>logger.error(text, exc_info=True)\<close> raises, if
    anything. The logger is loguru's; called with a keyword argument it formats the
    message with \<^verbatim>\<open>text.format(exc_info=True)\<close> before it writes, so braces in the
    text can make the call raise.
  Floats are finite reals: infinities and NaN are not represented.
\<close>

record platform =
  float_pow :: "real \<Rightarrow> nat \<Rightarrow> exc + real"
  float_mul :: "real \<Rightarrow> real \<Rightarrow> real"
  random_uniform :: "nat \<Rightarrow> real \<Rightarrow> real \<Rightarrow> real"
  logger_error :: "string \<Rightarrow> exc option"

section \<open>Retry policy (utils/retry\_utils.py, RetryConfig)\<close>

text \<open>
  The attempt index counts retries from 0 (docstring of \<^verbatim>\<open>calculate_delay\<close>), so it
  is a natural number; \<^verbatim>\<open>max_retries\<close> is whatever integer the caller passed.
\<close>

record RetryConfig =
  max_retries :: int
  initial_delay :: real
  max_delay :: real
  exponential_base :: real
  jitter :: bool
  jitter_range :: "real \<times> real"

text \<open>The defaults of \<^verbatim>\<open>RetryConfig.__init__\<close>.\<close>

definition RetryConfig_default :: RetryConfig where
  "RetryConfig_default =
     \<lparr>max_retries = 3, initial_delay = 1, max_delay = 60, exponential_base = 2,
      jitter = True, jitter_range = (1/2, 3/2)\<rparr>"

text \<open>
  What an execution can observe and change: how often the wrapped operation has been
  called, how many samples have been drawn from \<^verbatim>\<open>random.uniform\<close>, and the
  effects in the order they happened. A \<open>LogError\<close> entry holds the text of the
  message.
\<close>

datatype event =
    Invoke
  | LogWarning nat real exc
  | LogError string
  | OnRetry exc nat
  | LogCallbackError exc
  | TimeSleep real
  | AsyncioSleep real

record world =
  calls :: nat
  draws :: nat
  trace :: "event list"

definition world0 :: world where
  "world0 = \<lparr>calls = 0, draws = 0, trace = []\<rparr>"

definition emit :: "event \<Rightarrow> world \<Rightarrow> world" where
  "emit ev w = w\<lparr>trace := trace w @ [ev]\<rparr>"

text \<open>
  \<^verbatim>\<open>calculate_delay\<close>, lines 44-66. The power is computed first and may raise; the
  sample is drawn only when jitter is on, after the clamp.
\<close>

definition calculate_delay ::
  "platform \<Rightarrow> RetryConfig \<Rightarrow> nat \<Rightarrow> world \<Rightarrow> (exc + real) \<times> world" where
  "calculate_delay P self attempt w =
     (case float_pow P (exponential_base self) attempt of
        Inl err \<Rightarrow> (Inl err, w)
      | Inr p \<Rightarrow>
          let delay = min (float_mul P (initial_delay self) p) (max_delay self)
          in if jitter self
             then (let (jitter_min, jitter_max) = jitter_range self;
                       jitter_factor = random_uniform P (draws w) jitter_min jitter_max
                   in (Inr (float_mul P delay jitter_factor), w\<lparr>draws := draws w + 1\<rparr>))
             else (Inr delay, w))"

section \<open>Log messages\<close>

text \<open>\<^verbatim>\<open>str(n)\<close> of an integer, as an f-string renders it.\<close>

definition digit_char :: "nat \<Rightarrow> char" where
  "digit_char d = ''0123456789'' ! d"

fun digits :: "nat \<Rightarrow> string" where
  "digits n = (if n < 10 then [digit_char n] else digits (n div 10) @ [digit_char (n mod 10)])"

declare digits.simps [simp del]

definition str_int :: "int \<Rightarrow> string" where
  "str_int i = (if i < 0 then CHR ''-'' # digits (nat (- i)) else digits (nat i))"

text \<open>
  The f-strings of the terminal log calls (lines 103/176, 129/203 and 252). The
  executors read \<^verbatim>\<open>func.__name__\<close> first: \<open>func_name\<close> is \<open>Inr\<close> of the name, or \<open>Inl\<close>
  of the \<^verbatim>\<open>AttributeError\<close> that the read raises for a callable without that
  attribute (a \<^verbatim>\<open>functools.partial\<close>, an instance with \<^verbatim>\<open>__call__\<close>). Then the
  building of the text raises, and nothing is logged.
\<close>

definition exhausted_message :: "exc + string \<Rightarrow> RetryConfig \<Rightarrow> exc \<Rightarrow> exc + string" where
  "exhausted_message func_name config e =
     (case func_name of
        Inl err \<Rightarrow> Inl err
      | Inr name \<Rightarrow>
          Inr (''Function '' @ name @ '' failed after '' @ str_int (max_retries config) @
               '' retries: '' @ exc_msg e))"

definition non_retryable_message :: "exc + string \<Rightarrow> exc \<Rightarrow> exc + string" where
  "non_retryable_message func_name e =
     (case func_name of
        Inl err \<Rightarrow> Inl err
      | Inr name \<Rightarrow>
          Inr (''Function '' @ name @ '' raised non-retryable exception: '' @
               class_name (exc_type e) @ '': '' @ exc_msg e))"

definition context_message :: "RetryConfig \<Rightarrow> exc \<Rightarrow> exc + string" where
  "context_message config exc_val =
     Inr (''Retry context failed after '' @ str_int (max_retries config) @ '' retries: '' @
          exc_msg exc_val)"

text \<open>
  The statement \<^verbatim>\<open>logger.error(f"...", exc_info=True)\<close>: the first component is the
  exception that leaves the statement, from the building of the text or from the
  logger, and \<open>None\<close> when the statement completes and the entry is written.
\<close>

definition error_log :: "platform \<Rightarrow> exc + string \<Rightarrow> world \<Rightarrow> exc option \<times> world" where
  "error_log P message w =
     (case message of
        Inl err \<Rightarrow> (Some err, w)
      | Inr text \<Rightarrow>
          (case logger_error P text of
             Some err \<Rightarrow> (Some err, w)
           | None \<Rightarrow> (None, emit (LogError text) w)))"

section \<open>Decorator executors (sync\_retry, async\_retry)\<close>

text \<open>
  What a call of the wrapper does for its caller: it returns the value of the wrapped
  function, it raises, or it falls off the end of its body and returns \<^verbatim>\<open>None\<close>.
\<close>

datatype 'a outcome = Returned 'a | ReturnedNone | Raised exc

definition invoke :: "world \<Rightarrow> world" where
  "invoke w = emit Invoke (w\<lparr>calls := calls w + 1\<rparr>)"

text \<open>
  The two statements that end both terminal branches of the handlers: the error log
  call, then the bare \<^verbatim>\<open>raise\<close> of the exception \<open>e\<close> being handled. An exception
  raised inside an \<^verbatim>\<open>except\<close> clause leaves the \<^verbatim>\<open>try\<close> statement (the sibling
  \<^verbatim>\<open>except Exception\<close> clause does not see it), so when the log call raises, that
  exception reaches the caller and the \<^verbatim>\<open>raise\<close> is never run.
\<close>

definition log_then_raise :: "platform \<Rightarrow> exc + string \<Rightarrow> exc \<Rightarrow> world \<Rightarrow> 'a outcome \<times> world" where
  "log_then_raise P message e w =
     (case error_log P message w of
        (Some err, w') \<Rightarrow> (Raised err, w')
      | (None, w') \<Rightarrow> (Raised e, w'))"

text \<open>
  The body of \<^verbatim>\<open>wrapper\<close>, lines 163-210 (\<^verbatim>\<open>sync_retry\<close>) and 90-137
  (\<^verbatim>\<open>async_retry\<close>): the two texts differ only in the primitive that waits,
  \<^verbatim>\<open>time.sleep\<close> or \<^verbatim>\<open>await asyncio.sleep\<close>, which is the parameter \<open>sleep\<close>.
  The \<^verbatim>\<open>for\<close> loop runs over the list \<open>range(config.max_retries + 1)\<close>.

  \<open>func n\<close> is what the \<open>n\<close>-th call of the wrapped function does (counting from 0):
  it raises (\<open>Inl\<close>) or returns (\<open>Inr\<close>). \<open>on_retry\<close> is the optional callback;
  \<open>cb e attempt\<close> is \<open>Some ce\<close> when the callback raises \<open>ce\<close> and \<open>None\<close> when it
  returns. In the retry branch the delay is computed first (it may raise), then the
  text of the warning is built (the read of \<^verbatim>\<open>func.__name__\<close> may raise); the warning
  itself is logged without keyword arguments, so its text is not formatted again.
\<close>

fun retry_loop ::
  "platform \<Rightarrow> (real \<Rightarrow> event) \<Rightarrow> RetryConfig \<Rightarrow> exc_class list \<Rightarrow>
   (exc \<Rightarrow> nat \<Rightarrow> exc option) option \<Rightarrow> exc + string \<Rightarrow> (nat \<Rightarrow> exc + 'a) \<Rightarrow>
   nat list \<Rightarrow> exc option \<Rightarrow> world \<Rightarrow> 'a outcome \<times> world" where
  "retry_loop P sleep config exceptions on_retry func_name func [] last_exception w =
     (case last_exception of
        Some e \<Rightarrow> (Raised e, w)
      | None \<Rightarrow> (ReturnedNone, w))"
| "retry_loop P sleep config exceptions on_retry func_name func (attempt # rest) last_exception w =
     (let w1 = invoke w in
      case func (calls w) of
        Inr v \<Rightarrow> (Returned v, w1)
      | Inl e \<Rightarrow>
          if issubclass (exc_type e) exceptions then
            if int attempt = max_retries config
            then log_then_raise P (exhausted_message func_name config e) e w1
            else
              (case calculate_delay P config attempt w1 of
                 (Inl err, w2) \<Rightarrow> (Raised err, w2)
               | (Inr delay, w2) \<Rightarrow>
                   (case func_name of
                      Inl err \<Rightarrow> (Raised err, w2)
                    | Inr name \<Rightarrow>
                        let w3 = emit (LogWarning attempt delay e) w2;
                            w4 = (case on_retry of
                                    None \<Rightarrow> w3
                                  | Some cb \<Rightarrow>
                                      (case cb e attempt of
                                         None \<Rightarrow> emit (OnRetry e attempt) w3
                                       | Some callback_error \<Rightarrow>
                                           emit (LogCallbackError callback_error)
                                             (emit (OnRetry e attempt) w3)));
                            w5 = emit (sleep delay) w4
                        in retry_loop P sleep config exceptions on_retry func_name func rest
                             (Some e) w5))
          else log_then_raise P (non_retryable_message func_name e) e w1)"

text \<open>\<^verbatim>\<open>range(config.max_retries + 1)\<close>: empty when \<^verbatim>\<open>max_retries\<close> is negative.\<close>

definition attempts :: "RetryConfig \<Rightarrow> nat list" where
  "attempts config = [0..<nat (max_retries config + 1)]"

text \<open>\<^verbatim>\<open>if config is None: config = RetryConfig()\<close>.\<close>

definition config_or_default :: "RetryConfig option \<Rightarrow> RetryConfig" where
  "config_or_default config = (case config of None \<Rightarrow> RetryConfig_default | Some c \<Rightarrow> c)"

definition sync_retry ::
  "platform \<Rightarrow> RetryConfig option \<Rightarrow> exc_class list \<Rightarrow> (exc \<Rightarrow> nat \<Rightarrow> exc option) option \<Rightarrow>
   exc + string \<Rightarrow> (nat \<Rightarrow> exc + 'a) \<Rightarrow> world \<Rightarrow> 'a outcome \<times> world" where
  "sync_retry P config exceptions on_retry func_name func w =
     (let config = config_or_default config
      in retry_loop P TimeSleep config exceptions on_retry func_name func (attempts config) None w)"

definition async_retry ::
  "platform \<Rightarrow> RetryConfig option \<Rightarrow> exc_class list \<Rightarrow> (exc \<Rightarrow> nat \<Rightarrow> exc option) option \<Rightarrow>
   exc + string \<Rightarrow> (nat \<Rightarrow> exc + 'a) \<Rightarrow> world \<Rightarrow> 'a outcome \<times> world" where
  "async_retry P config exceptions on_retry func_name func w =
     (let config = config_or_default config
      in retry_loop P AsyncioSleep config exceptions on_retry func_name func (attempts config)
           None w)"

section \<open>Retry scope (RetryContext)\<close>

record RetryContext =
  config :: RetryConfig
  exceptions :: "exc_class list"
  attempt :: nat
  last_exception :: "exc option"

text \<open>\<^verbatim>\<open>RetryContext.__init__\<close>, lines 219-234.\<close>

definition RetryContext_init :: "RetryConfig option \<Rightarrow> exc_class list \<Rightarrow> RetryContext" where
  "RetryContext_init cfg excs =
     \<lparr>config = config_or_default cfg, exceptions = excs, attempt = 0, last_exception = None\<rparr>"

text \<open>
  \<^verbatim>\<open>RetryContext.__exit__\<close>, lines 239-269. The argument is \<open>None\<close> when the guarded
  block ended without an exception and \<open>Some exc_val\<close> otherwise (\<^verbatim>\<open>exc_type\<close> is
  the class of \<^verbatim>\<open>exc_val\<close>). The first component of the result is what the call does:
  \<open>Inr True\<close> returns \<^verbatim>\<open>True\<close> and suppresses the exception, \<open>Inr False\<close> returns
  \<^verbatim>\<open>False\<close> and lets it propagate, \<open>Inl err\<close> is \<^verbatim>\<open>__exit__\<close> itself raising \<open>err\<close>
  (then \<open>err\<close> propagates in place of the exception of the block). The second
  component is the guard after the call, also when the call raises:
  \<^verbatim>\<open>last_exception\<close> is assigned before the log call and the delay.
\<close>

definition RetryContext_exit ::
  "platform \<Rightarrow> RetryContext \<Rightarrow> exc option \<Rightarrow> world \<Rightarrow> (exc + bool) \<times> RetryContext \<times> world" where
  "RetryContext_exit P self exc w =
     (case exc of
        None \<Rightarrow> (Inr True, self, w)
      | Some exc_val \<Rightarrow>
          if \<not> issubclass (exc_type exc_val) (exceptions self) then (Inr False, self, w)
          else
            let self1 = self\<lparr>last_exception := Some exc_val\<rparr> in
            if int (attempt self1) \<ge> max_retries (config self1)
            then
              (case error_log P (context_message (config self1) exc_val) w of
                 (Some err, w1) \<Rightarrow> (Inl err, self1, w1)
               | (None, w1) \<Rightarrow> (Inr False, self1, w1))
            else
              (case calculate_delay P (config self1) (attempt self1) w of
                 (Inl err, w1) \<Rightarrow> (Inl err, self1, w1)
               | (Inr delay, w1) \<Rightarrow>
                   let w2 = emit (LogWarning (attempt self1) delay exc_val) w1;
                       w3 = emit (TimeSleep delay) w2
                   in (Inr True, self1\<lparr>attempt := attempt self1 + 1\<rparr>, w3)))"

section \<open>A reference platform\<close>

text \<open>
  A platform to run the model on concrete inputs. Its float operations are exact up
  to the overflow threshold of binary64 (a power whose magnitude reaches
  \<open>2^1024 - 2^970\<close> rounds to infinity, where \<^verbatim>\<open>**\<close> raises), so it agrees with the
  interpreter on every operation whose exact result is a float, which is the case
  wherever it is used below. Its sample is always the upper bound of the range.
\<close>

definition quote :: string where
  "quote = [CHR 0x27]"

definition overflow_error :: exc where
  "overflow_error =
     Exc OverflowError (''(34, '' @ quote @ ''Numerical result out of range'' @ quote @ '')'')"

definition exact_pow :: "real \<Rightarrow> nat \<Rightarrow> exc + real" where
  "exact_pow x k = (if 2 ^ 1024 - 2 ^ 970 \<le> \<bar>x ^ k\<bar> then Inl overflow_error else Inr (x ^ k))"

text \<open>
  \<^verbatim>\<open>text.format(exc_info=True)\<close> for a text whose replacement fields are plain (a
  name, a number or nothing between the braces; no conversion, format specification,
  attribute or index): \<^verbatim>\<open>{{\<close> and \<^verbatim>\<open>}}\<close> are escapes, a lone brace is a
  \<^verbatim>\<open>ValueError\<close>, the field \<^verbatim>\<open>{exc_info}\<close> is filled, an empty or numeric field is
  an \<^verbatim>\<open>IndexError\<close> (there is no positional argument), any other name a
  \<^verbatim>\<open>KeyError\<close>. The text is read from left to right and the first error is raised.
\<close>

definition lookup_field :: "string \<Rightarrow> exc option" where
  "lookup_field name =
     (if CHR ''{'' \<in> set name
        then Some (Exc ValueError (''unexpected '' @ quote @ ''{'' @ quote @ '' in field name''))
      else if name = ''exc_info'' then None
      else if list_all (\<lambda>c. c \<in> set ''0123456789'') name
        then Some (Exc IndexError
               (''Replacement index '' @ (if name = [] then ''0'' else name) @
                '' out of range for positional args tuple''))
      else Some (Exc KeyError (quote @ name @ quote)))"

lemma dropWhile_shorter: "dropWhile Q cs = r # rs \<Longrightarrow> length rs < Suc (length cs)"
  using length_dropWhile_le [of Q cs] by simp

function format_error :: "string \<Rightarrow> exc option" where
  "format_error [] = None"
| "format_error (c # cs) =
     (if c = CHR ''}'' then
        (case cs of
           [] \<Rightarrow> Some (Exc ValueError
                   (''Single '' @ quote @ ''}'' @ quote @ '' encountered in format string''))
         | d # ds \<Rightarrow>
             if d = CHR ''}'' then format_error ds
             else Some (Exc ValueError
                    (''Single '' @ quote @ ''}'' @ quote @ '' encountered in format string'')))
      else if c = CHR ''{'' then
        (case cs of
           [] \<Rightarrow> Some (Exc ValueError
                   (''Single '' @ quote @ ''{'' @ quote @ '' encountered in format string''))
         | d # ds \<Rightarrow>
             if d = CHR ''{'' then format_error ds
             else
               (case dropWhile (\<lambda>x. x \<noteq> CHR ''}'') cs of
                  [] \<Rightarrow> Some (Exc ValueError
                          (''expected '' @ quote @ ''}'' @ quote @ '' before end of string''))
                | r # rs \<Rightarrow>
                    (case lookup_field (takeWhile (\<lambda>x. x \<noteq> CHR ''}'') cs) of
                       Some err \<Rightarrow> Some err
                     | None \<Rightarrow> format_error rs)))
      else format_error cs)"
  by pat_completeness auto
termination
  by (relation "measure length") (auto dest: dropWhile_shorter split: if_splits)

declare format_error.simps [simp del]

definition reference_platform :: platform where
  "reference_platform =
     \<lparr>float_pow = exact_pow, float_mul = (\<lambda>x y. x * y), random_uniform = (\<lambda>n a b. b),
      logger_error = format_error\<rparr>"

section \<open>Observations on an execution\<close>

text \<open>The arguments of the calls of the retry callback, in the order of the calls.\<close>

definition on_retry_calls :: "event list \<Rightarrow> (exc \<times> nat) list" where
  "on_retry_calls tr = concat (map (\<lambda>ev. case ev of OnRetry e k \<Rightarrow> [(e, k)] | _ \<Rightarrow> []) tr)"

text \<open>The durations of the waits, blocking or suspended, in order.\<close>

definition waits :: "event list \<Rightarrow> real list" where
  "waits tr = concat (map (\<lambda>ev. case ev of TimeSleep d \<Rightarrow> [d] | AsyncioSleep d \<Rightarrow> [d] | _ \<Rightarrow> []) tr)"

text \<open>What happened after the last call of the wrapped function.\<close>

definition after_last_invoke :: "event list \<Rightarrow> event list" where
  "after_last_invoke tr = rev (takeWhile (\<lambda>ev. ev \<noteq> Invoke) (rev tr))"

text \<open>
  The \<open>k\<close>-th call of the wrapped function raises an exception that the
  \<^verbatim>\<open>except exceptions\<close> clause catches.
\<close>

definition retryable_failure :: "exc_class list \<Rightarrow> (nat \<Rightarrow> exc + 'a) \<Rightarrow> nat \<Rightarrow> bool" where
  "retryable_failure excs func k =
     (case func k of Inl e \<Rightarrow> issubclass (exc_type e) excs | Inr v \<Rightarrow> False)"

text \<open>The power \<^verbatim>\<open>exponential_base ** k\<close> of the delay of attempt \<open>k\<close> does not overflow.\<close>

definition no_overflow :: "platform \<Rightarrow> RetryConfig \<Rightarrow> nat \<Rightarrow> bool" where
  "no_overflow P cfg k = (\<not> isl (float_pow P (exponential_base cfg) k))"

text \<open>
  A world with the log entries about failed callbacks taken out of its trace, and a
  callback that never raises; together they say what "as if the callback had succeeded"
  means.
\<close>

definition quiet :: "world \<Rightarrow> world" where
  "quiet w = w\<lparr>trace := filter (\<lambda>ev. case ev of LogCallbackError ce \<Rightarrow> False | _ \<Rightarrow> True) (trace w)\<rparr>"


text \<open>
  The taxonomy in the words of the specification: a kind is a descendant of another
  when that one is its parent or an ancestor of its parent, and a kind matches the
  retryable set when it equals an entry or is a descendant of one.
\<close>

inductive descendant :: "exc_class \<Rightarrow> exc_class \<Rightarrow> bool" where
  child: "base k = Some p \<Longrightarrow> descendant k p"
| grandchild: "base k = Some p \<Longrightarrow> descendant p c \<Longrightarrow> descendant k c"

definition in_retryable_set :: "exc_class \<Rightarrow> exc_class list \<Rightarrow> bool" where
  "in_retryable_set k cs = (\<exists>c\<in>set cs. k = c \<or> descendant k c)"

text \<open>
  The effect of one loop iteration that ends in a retry (call, delay computation,
  warning, callback, wait), and of a run of such iterations from attempt \<open>a\<close> on;
  both serve the proofs only.
\<close>

definition retried ::
  "platform \<Rightarrow> (real \<Rightarrow> event) \<Rightarrow> RetryConfig \<Rightarrow> (exc \<Rightarrow> nat \<Rightarrow> exc option) option \<Rightarrow> nat \<Rightarrow> exc \<Rightarrow>
   world \<Rightarrow> world" where
  "retried P sl cfg cb a e w =
     (case calculate_delay P cfg a (invoke w) of
        (Inl err, w2) \<Rightarrow> w2
      | (Inr delay, w2) \<Rightarrow>
          let w3 = emit (LogWarning a delay e) w2;
              w4 = (case cb of
                      None \<Rightarrow> w3
                    | Some f \<Rightarrow>
                        (case f e a of
                           None \<Rightarrow> emit (OnRetry e a) w3
                         | Some ce \<Rightarrow> emit (LogCallbackError ce) (emit (OnRetry e a) w3)))
          in emit (sl delay) w4)"

fun retries ::
  "platform \<Rightarrow> (real \<Rightarrow> event) \<Rightarrow> RetryConfig \<Rightarrow> (exc \<Rightarrow> nat \<Rightarrow> exc option) option \<Rightarrow> nat \<Rightarrow>
   exc list \<Rightarrow> world \<Rightarrow> world" where
  "retries P sl cfg cb a [] w = w"
| "retries P sl cfg cb a (e # es) w = retries P sl cfg cb (Suc a) es (retried P sl cfg cb a e w)"

section \<open>Policies and operations of the scenarios\<close>

text \<open>The constraints the specification puts on a policy (sections 3 and 6).\<close>

definition valid_policy :: "RetryConfig \<Rightarrow> bool" where
  "valid_policy cfg =
     (0 \<le> max_retries cfg \<and> 0 < initial_delay cfg \<and> initial_delay cfg \<le> max_delay cfg \<and>
      1 < exponential_base cfg \<and> 0 < fst (jitter_range cfg) \<and>
      fst (jitter_range cfg) \<le> snd (jitter_range cfg))"

text \<open>
  The policies of scenarios A and D of the specification (A is the default policy
  without jitter), D with jitter switched on, and A with the base \<open>2^600\<close>, a float
  whose square is out of the float range.
\<close>

definition scenario_A :: RetryConfig where
  "scenario_A =
     \<lparr>max_retries = 3, initial_delay = 1, max_delay = 60, exponential_base = 2,
      jitter = False, jitter_range = (1/2, 3/2)\<rparr>"

definition scenario_D :: RetryConfig where
  "scenario_D =
     \<lparr>max_retries = 2, initial_delay = 10, max_delay = 15, exponential_base = 5,
      jitter = False, jitter_range = (1/2, 3/2)\<rparr>"

definition scenario_D_jitter :: RetryConfig where
  "scenario_D_jitter = scenario_D\<lparr>jitter := True\<rparr>"


text \<open>
  Operations: the \<open>k\<close>-th call raises a \<^verbatim>\<open>ConnectionError\<close> whose message tells the
  calls apart; an operation that always fails so, and one that fails three times and
  then returns 42 (scenario B).
\<close>

definition net_error :: "nat \<Rightarrow> exc" where
  "net_error k = Exc ConnectionError (replicate k (CHR ''!''))"



text \<open>
  Failures whose text holds a replacement field, as the text of a failure that quotes
  a dictionary or a JSON body does: \<^verbatim>\<open>ConnectionError('{x}')\<close>,
  \<^verbatim>\<open>ValidationError('{x}')\<close> and \<^verbatim>\<open>DataFetchError('{x}')\<close>, each with the operation
  that always raises it, and the \<^verbatim>\<open>KeyError('x')\<close> that formatting such a text
  raises.
\<close>

definition brace_failure :: exc where
  "brace_failure = Exc ConnectionError ''{x}''"

definition brace_fails :: "nat \<Rightarrow> exc + nat" where
  "brace_fails k = Inl brace_failure"

definition invalid_brace :: exc where
  "invalid_brace = Exc ValidationError ''{x}''"

definition always_invalid :: "nat \<Rightarrow> exc + nat" where
  "always_invalid k = Inl invalid_brace"

definition fetch_brace :: exc where
  "fetch_brace = Exc DataFetchError ''{x}''"

definition fetch_fails :: "nat \<Rightarrow> exc + nat" where
  "fetch_fails k = Inl fetch_brace"

definition key_error_x :: exc where
  "key_error_x = Exc KeyError (quote @ ''x'' @ quote)"



text \<open>A guard under the policy of scenario A whose three retries are used up.\<close>

definition used_up :: RetryContext where
  "used_up = (RetryContext_init (Some scenario_A) [ValueError, ConnectionError])\<lparr>attempt := 3\<rparr>"

section \<open>The loop, step by step\<close>

lemma calls_emit [simp]: "calls (emit ev w) = calls w"
  and draws_emit [simp]: "draws (emit ev w) = draws w"
  and trace_emit [simp]: "trace (emit ev w) = trace w @ [ev]"
  by (simp_all add: emit_def)

lemma calls_invoke [simp]: "calls (invoke w) = Suc (calls w)"
  and draws_invoke [simp]: "draws (invoke w) = draws w"
  and trace_invoke [simp]: "trace (invoke w) = trace w @ [Invoke]"
  by (simp_all add: invoke_def)

lemma calls_world0 [simp]: "calls world0 = 0"
  and draws_world0 [simp]: "draws world0 = 0"
  and trace_world0 [simp]: "trace world0 = []"
  by (simp_all add: world0_def)

lemma calls_calculate_delay [simp]: "calls (snd (calculate_delay P cfg a w)) = calls w"
  and trace_calculate_delay [simp]: "trace (snd (calculate_delay P cfg a w)) = trace w"
  by (simp_all add: calculate_delay_def Let_def split: prod.splits sum.splits)

lemma calculate_delay_returns:
  "no_overflow P cfg a \<longleftrightarrow> (\<exists>d. fst (calculate_delay P cfg a w) = Inr d)"
  by (cases "float_pow P (exponential_base cfg) a")
     (auto simp: no_overflow_def calculate_delay_def Let_def split: prod.splits)

lemma on_retry_calls_append [simp]:
  "on_retry_calls (xs @ ys) = on_retry_calls xs @ on_retry_calls ys"
  by (simp add: on_retry_calls_def)

lemma waits_append [simp]: "waits (xs @ ys) = waits xs @ waits ys"
  by (simp add: waits_def)

lemma on_retry_calls_Nil [simp]: "on_retry_calls [] = []"
  and on_retry_calls_Cons [simp]: "on_retry_calls (ev # tr) =
     (case ev of OnRetry e k \<Rightarrow> [(e, k)] | _ \<Rightarrow> []) @ on_retry_calls tr"
  by (simp_all add: on_retry_calls_def)

lemma waits_Nil [simp]: "waits [] = []"
  and waits_Cons [simp]: "waits (ev # tr) =
     (case ev of TimeSleep d \<Rightarrow> [d] | AsyncioSleep d \<Rightarrow> [d] | _ \<Rightarrow> []) @ waits tr"
  by (simp_all add: waits_def)

lemma after_last_invoke_Invoke [simp]: "after_last_invoke (tr @ [Invoke]) = []"
  by (simp add: after_last_invoke_def)

lemma retried_unfold:
  assumes "calculate_delay P cfg a (invoke w) = (Inr d, w2)"
  shows "retried P sl cfg cb a e w =
     emit (sl d)
       (case cb of
          None \<Rightarrow> emit (LogWarning a d e) w2
        | Some f \<Rightarrow>
            (case f e a of
               None \<Rightarrow> emit (OnRetry e a) (emit (LogWarning a d e) w2)
             | Some ce \<Rightarrow>
                 emit (LogCallbackError ce) (emit (OnRetry e a) (emit (LogWarning a d e) w2))))"
  using assms by (simp add: retried_def Let_def)

lemma calls_retried [simp]: "calls (retried P sl cfg cb a e w) = Suc (calls w)"
proof -
  obtain r w2 where cd: "calculate_delay P cfg a (invoke w) = (r, w2)"
    by (cases "calculate_delay P cfg a (invoke w)")
  then have "calls w2 = Suc (calls w)"
    using calls_calculate_delay [of P cfg a "invoke w"] by simp
  then show ?thesis
    using cd by (cases r) (simp_all add: retried_def Let_def split: option.splits)
qed

lemma loop_retry_step:
  assumes "func (calls w) = Inl e" "issubclass (exc_type e) excs" "int a \<noteq> max_retries cfg"
    and "no_overflow P cfg a" "nm = Inr name"
  shows "retry_loop P sl cfg excs cb nm func (a # rest) lst w =
         retry_loop P sl cfg excs cb nm func rest (Some e) (retried P sl cfg cb a e w)"
proof -
  from assms(4) obtain d where "fst (calculate_delay P cfg a (invoke w)) = Inr d"
    using calculate_delay_returns [of P cfg a "invoke w"] by blast
  then obtain w2 where cd: "calculate_delay P cfg a (invoke w) = (Inr d, w2)"
    by (cases "calculate_delay P cfg a (invoke w)") simp
  show ?thesis
    using assms(1,2,3,5) by (simp add: cd retried_unfold [OF cd] Let_def)
qed


lemma loop_terminal:
  assumes "func (calls w) = Inl e"
    and "issubclass (exc_type e) excs \<longrightarrow> int a = max_retries cfg"
  shows "retry_loop P sl cfg excs cb nm func (a # rest) lst w =
         log_then_raise P
           (if issubclass (exc_type e) excs then exhausted_message nm cfg e
            else non_retryable_message nm e) e (invoke w)"
  using assms by simp

lemma trace_log_then_raise:
  "trace (snd (log_then_raise P msg e w)) = trace w \<or>
   (\<exists>text. trace (snd (log_then_raise P msg e w)) = trace w @ [LogError text])"
  by (auto simp: log_then_raise_def error_log_def split: sum.splits option.splits)

lemma calls_log_then_raise [simp]: "calls (snd (log_then_raise P msg e w)) = calls w"
  by (auto simp: log_then_raise_def error_log_def split: sum.splits option.splits)

lemma on_retry_calls_log_then_raise [simp]:
  "on_retry_calls (trace (snd (log_then_raise P msg e w))) = on_retry_calls (trace w)"
  by (auto simp: log_then_raise_def error_log_def split: sum.splits option.splits)

lemma waits_log_then_raise [simp]:
  "waits (trace (snd (log_then_raise P msg e w))) = waits (trace w)"
  by (auto simp: log_then_raise_def error_log_def split: sum.splits option.splits)

lemma loop_retries:
  assumes "\<forall>k<length es. func (calls w + k) = Inl (es ! k) \<and> issubclass (exc_type (es ! k)) excs"
    and "a + length es \<le> n" and "max_retries cfg = int n"
    and "\<forall>k<length es. no_overflow P cfg (a + k)" and "nm = Inr name"
  shows "retry_loop P sl cfg excs cb nm func [a..<Suc n] lst w =
         retry_loop P sl cfg excs cb nm func [a + length es..<Suc n]
           (if es = [] then lst else Some (last es)) (retries P sl cfg cb a es w)"
  using assms(1,2,4)
proof (induction es arbitrary: a w lst)
  case Nil
  then show ?case by simp
next
  case (Cons e es)
  from Cons.prems(1) have e0: "func (calls w) = Inl e" "issubclass (exc_type e) excs"
    by force+
  have an: "a < n" using Cons.prems(2) by simp
  have ne: "int a \<noteq> max_retries cfg" using an assms(3) by simp
  have no: "no_overflow P cfg a" using Cons.prems(3) by force
  have ul: "[a..<Suc n] = a # [Suc a..<Suc n]"
    using an by (intro upt_conv_Cons) simp
  have step: "retry_loop P sl cfg excs cb nm func [a..<Suc n] lst w =
      retry_loop P sl cfg excs cb nm func [Suc a..<Suc n] (Some e) (retried P sl cfg cb a e w)"
    unfolding ul by (rule loop_retry_step) (fact e0 ne no assms(5))+
  have rest: "\<forall>k<length es. func (calls (retried P sl cfg cb a e w) + k) = Inl (es ! k)
                \<and> issubclass (exc_type (es ! k)) excs"
  proof (intro allI impI)
    fix k assume "k < length es"
    then have "Suc k < length (e # es)" by simp
    from Cons.prems(1) [rule_format, OF this] show
      "func (calls (retried P sl cfg cb a e w) + k) = Inl (es ! k) \<and> issubclass (exc_type (es ! k)) excs"
      by simp
  qed
  have rest_no: "\<forall>k<length es. no_overflow P cfg (Suc a + k)"
  proof (intro allI impI)
    fix k assume "k < length es"
    then have "Suc k < length (e # es)" by simp
    from Cons.prems(3) [rule_format, OF this] show "no_overflow P cfg (Suc a + k)" by simp
  qed
  have "retry_loop P sl cfg excs cb nm func [Suc a..<Suc n] (Some e) (retried P sl cfg cb a e w) =
        retry_loop P sl cfg excs cb nm func [Suc a + length es..<Suc n]
          (if es = [] then Some e else Some (last es))
          (retries P sl cfg cb (Suc a) es (retried P sl cfg cb a e w))"
    using Cons.IH [of "retried P sl cfg cb a e w" "Suc a" "Some e"] rest rest_no Cons.prems(2)
    by simp
  with step show ?case by simp
qed

lemma calls_retries [simp]: "calls (retries P sl cfg cb a es w) = calls w + length es"
  by (induction es arbitrary: a w) simp_all





lemma failures_list:
  assumes "\<forall>k<m. retryable_failure excs func k"
  shows "\<exists>es. length es = m \<and>
           (\<forall>k<m. func k = Inl (es ! k) \<and> issubclass (exc_type (es ! k)) excs)"
proof (intro exI conjI allI impI)
  let ?es = "map (\<lambda>k. projl (func k)) [0..<m]"
  show "length ?es = m" by simp
  fix k assume "k < m"
  with assms have "retryable_failure excs func k" by simp
  then show "func k = Inl (?es ! k)" and "issubclass (exc_type (?es ! k)) excs"
    using \<open>k < m\<close> by (auto simp: retryable_failure_def split: sum.splits)
qed

lemma attempts_nat: "max_retries cfg = int n \<Longrightarrow> attempts cfg = [0..<Suc n]"
  by (simp add: attempts_def nat_add_distrib Suc_nat_eq_nat_zadd1)

lemma run_split:
  assumes "max_retries cfg = int n" "m \<le> n"
    and "length es = m"
    and "\<forall>k<m. func k = Inl (es ! k) \<and> issubclass (exc_type (es ! k)) excs"
    and "\<forall>k<m. no_overflow P cfg k" and "nm = Inr name"
  shows "retry_loop P sl cfg excs cb nm func (attempts cfg) None world0 =
         retry_loop P sl cfg excs cb nm func (m # [Suc m..<Suc n])
           (if es = [] then None else Some (last es)) (retries P sl cfg cb 0 es world0)"
proof -
  have 1: "\<forall>k<length es. func (calls world0 + k) = Inl (es ! k) \<and> issubclass (exc_type (es ! k)) excs"
    using assms(3,4) by simp
  have 2: "\<forall>k<length es. no_overflow P cfg (0 + k)"
    using assms(3,5) by simp
  have 3: "0 + length es \<le> n" using assms(2,3) by simp
  from loop_retries [where es=es and func=func and w=world0 and excs=excs and a=0 and n=n
      and cfg=cfg and P=P and nm=nm and name=name and sl=sl and cb=cb and lst=None]
    1 2 3 assms(1,6)
  have "retry_loop P sl cfg excs cb nm func [0..<Suc n] None world0 =
        retry_loop P sl cfg excs cb nm func [m..<Suc n]
          (if es = [] then None else Some (last es)) (retries P sl cfg cb 0 es world0)"
    using assms(3) by simp
  moreover have "[m..<Suc n] = m # [Suc m..<Suc n]"
    using assms(2) by (intro upt_conv_Cons) simp
  ultimately show ?thesis
    using attempts_nat [OF assms(1)] by simp
qed

lemma sync_retry_loop:
  "sync_retry P (Some cfg) excs cb nm func w =
   retry_loop P TimeSleep cfg excs cb nm func (attempts cfg) None w"
  by (simp add: sync_retry_def config_or_default_def)

lemma async_retry_loop:
  "async_retry P (Some cfg) excs cb nm func w =
   retry_loop P AsyncioSleep cfg excs cb nm func (attempts cfg) None w"
  by (simp add: async_retry_def config_or_default_def)



lemma quiet_world0 [simp]: "quiet world0 = world0"
  by (simp add: quiet_def world0_def)

lemma calls_quiet [simp]: "calls (quiet w) = calls w"
  and draws_quiet [simp]: "draws (quiet w) = draws w"
  by (simp_all add: quiet_def)

lemma waits_quiet [simp]: "waits (trace (quiet w)) = waits (trace w)"
proof -
  have "waits (filter (\<lambda>ev. case ev of LogCallbackError ce \<Rightarrow> False | _ \<Rightarrow> True) tr) = waits tr" for tr
    by (induction tr) (auto split: event.splits)
  then show ?thesis by (simp add: quiet_def)
qed







lemma exit_not_retryable:
  "\<not> issubclass (exc_type e) (exceptions ctx) \<Longrightarrow>
   RetryContext_exit P ctx (Some e) w = (Inr False, ctx, w)"
  by (simp add: RetryContext_exit_def)

lemma exit_records:
  "issubclass (exc_type e) (exceptions ctx) \<Longrightarrow>
   last_exception (fst (snd (RetryContext_exit P ctx (Some e) w))) = Some e"
  by (simp add: RetryContext_exit_def Let_def split: prod.splits sum.splits option.splits)

lemma mro_set: "c \<in> set (mro k) \<longleftrightarrow> c = k \<or> descendant k c"
proof (induction k rule: mro.induct)
  case (1 k)
  show ?case
  proof (cases "base k")
    case None
    then have "\<not> descendant k c"
      by (auto elim: descendant.cases)
    with None show ?thesis
      by (subst mro.simps) auto
  next
    case (Some p)
    have "descendant k c \<longleftrightarrow> c = p \<or> descendant p c"
      using Some by (auto elim: descendant.cases intro: descendant.intros)
    with Some "1.IH" [OF Some] show ?thesis
      by (subst mro.simps) auto
  qed
qed

lemma issubclass_iff: "issubclass k cs \<longleftrightarrow> in_retryable_set k cs"
  by (auto simp: issubclass_def in_retryable_set_def list_ex_iff issubclass1_def mro_set)

lemma all_less_3: "(\<forall>k<(3::nat). Q k) \<longleftrightarrow> Q 0 \<and> Q 1 \<and> Q 2"
  by (auto simp: numeral_3_eq_3 numeral_2_eq_2 less_Suc_eq)

lemma scenario_A_retries: "max_retries scenario_A = int 3"
  by (simp add: scenario_A_def)

lemma net_error_retryable: "issubclass (exc_type (net_error k)) [ValueError, ConnectionError]"
  by (simp add: net_error_def issubclass_def issubclass1_def mro.simps)

lemma scenario_A_no_overflow: "\<forall>k<3. no_overflow reference_platform scenario_A k"
  by (simp add: all_less_3 no_overflow_def reference_platform_def scenario_A_def exact_pow_def)

lemma run_terminal:
  assumes "max_retries cfg = int n" "m \<le> n"
    and "\<forall>k<m. retryable_failure excs func k"
    and "func m = Inl e"
    and "issubclass (exc_type e) excs \<longrightarrow> m = n"
    and "\<forall>k<m. no_overflow P cfg k" and "nm = Inr name"
  shows "\<exists>w. calls w = m + 1 \<and>
           retry_loop P sl cfg excs cb nm func (attempts cfg) None world0 =
           log_then_raise P
             (if issubclass (exc_type e) excs then exhausted_message nm cfg e
              else non_retryable_message nm e) e w"
proof -
  from failures_list [OF assms(3)] obtain es where es: "length es = m"
    "\<forall>k<m. func k = Inl (es ! k) \<and> issubclass (exc_type (es ! k)) excs" by blast
  let ?W = "retries P sl cfg cb 0 es world0"
  have c: "calls ?W = m" using es(1) by simp
  then have fe: "func (calls ?W) = Inl e" using assms(4) by simp
  have "issubclass (exc_type e) excs \<longrightarrow> int m = max_retries cfg"
    using assms(1,5) by simp
  with fe have "retry_loop P sl cfg excs cb nm func (m # [Suc m..<Suc n])
      (if es = [] then None else Some (last es)) ?W =
      log_then_raise P
        (if issubclass (exc_type e) excs then exhausted_message nm cfg e
         else non_retryable_message nm e) e (invoke ?W)"
    by (rule loop_terminal)
  with run_split [OF assms(1,2) es assms(6,7), of sl cb] c show ?thesis
    by (intro exI [of _ "invoke ?W"]) simp
qed

lemma log_then_raise_fails:
  "logger_error P text = Some err \<Longrightarrow> log_then_raise P (Inr text) e w = (Raised err, w)"
  by (simp add: log_then_raise_def error_log_def)










lemma format_exhausted:
  "format_error ''Function fetch failed after 3 retries: {x}'' = Some key_error_x"
  by code_simp

lemma format_non_retryable:
  "format_error ''Function fetch raised non-retryable exception: ValidationError: {x}'' =
   Some key_error_x"
  by code_simp

lemma format_non_matching:
  "format_error ''Function fetch raised non-retryable exception: DataFetchError: {x}'' =
   Some key_error_x"
  by code_simp

lemma format_context:
  "format_error ''Retry context failed after 3 retries: {x}'' = Some key_error_x"
  by code_simp

lemma str_int_3: "str_int 3 = ''3''"
  by (simp add: str_int_def digits.simps digit_char_def)

section \<open>The terminal log call and the guard, case by case\<close>

text \<open>
  When the error log call returns, the terminal branches raise the failure being
  handled; a text without braces is always logged by the reference platform.
\<close>

lemma log_then_raise_ok:
  "logger_error P text = None \<Longrightarrow>
   log_then_raise P (Inr text) e w = (Raised e, emit (LogError text) w)"
  by (simp add: log_then_raise_def error_log_def)

lemma format_error_plain:
  "CHR ''{'' \<notin> set s \<Longrightarrow> CHR ''}'' \<notin> set s \<Longrightarrow> format_error s = None"
  by (induction s) (auto simp: format_error.simps)

lemma exit_suppresses:
  assumes "issubclass (exc_type e) (exceptions ctx)"
    and "int (attempt ctx) < max_retries (config ctx)"
    and "calculate_delay P (config ctx) (attempt ctx) w = (Inr d, w1)"
  shows "RetryContext_exit P ctx (Some e) w =
           (Inr True, ctx\<lparr>last_exception := Some e, attempt := attempt ctx + 1\<rparr>,
            emit (TimeSleep d) (emit (LogWarning (attempt ctx) d e) w1))"
  using assms by (simp add: RetryContext_exit_def Let_def)

lemma exit_overflow:
  assumes "issubclass (exc_type e) (exceptions ctx)"
    and "int (attempt ctx) < max_retries (config ctx)"
    and "calculate_delay P (config ctx) (attempt ctx) w = (Inl err, w1)"
  shows "RetryContext_exit P ctx (Some e) w = (Inl err, ctx\<lparr>last_exception := Some e\<rparr>, w1)"
  using assms by (simp add: RetryContext_exit_def Let_def)

lemma exit_exhausted:
  assumes "issubclass (exc_type e) (exceptions ctx)"
    and "max_retries (config ctx) \<le> int (attempt ctx)"
    and "context_message (config ctx) e = Inr text"
  shows "RetryContext_exit P ctx (Some e) w =
           (case logger_error P text of
              None \<Rightarrow> (Inr False, ctx\<lparr>last_exception := Some e\<rparr>, emit (LogError text) w)
            | Some err \<Rightarrow> (Inl err, ctx\<lparr>last_exception := Some e\<rparr>, w))"
  using assms by (simp add: RetryContext_exit_def Let_def error_log_def split: option.splits)

section \<open>The retry policy\<close>

text \<open>
  C2. With jitter disabled, \<^verbatim>\<open>calculate_delay(k)\<close> has no effect on the world (no
  sample is drawn) and, when the power \<^verbatim>\<open>exponential_base ** k\<close> is the float \<open>p\<close>,
  returns \<open>min (initial_delay * p) max_delay\<close> in float arithmetic; where the power and
  the product are exact this is \<open>min (d0 * b^k) M\<close>. When the power overflows, the
  call raises the \<^verbatim>\<open>OverflowError\<close> and returns no delay. This holds for every policy
  with jitter off, so for the valid ones.
\<close>

theorem calculate_delay_without_jitter:
  assumes "\<not> jitter cfg"
  shows "(float_pow P (exponential_base cfg) k = Inr p \<longrightarrow>
            calculate_delay P cfg k w =
              (Inr (min (float_mul P (initial_delay cfg) p) (max_delay cfg)), w)) \<and>
         (float_pow P (exponential_base cfg) k = Inr (exponential_base cfg ^ k) \<and>
          float_mul P (initial_delay cfg) (exponential_base cfg ^ k) =
            initial_delay cfg * exponential_base cfg ^ k \<longrightarrow>
            calculate_delay P cfg k w =
              (Inr (min (initial_delay cfg * exponential_base cfg ^ k) (max_delay cfg)), w)) \<and>
         (float_pow P (exponential_base cfg) k = Inl err \<longrightarrow>
            calculate_delay P cfg k w = (Inl err, w))"
  using assms by (simp add: calculate_delay_def)

text \<open>Scenario D: the delays 10 and 15, the second clamped from 50.\<close>

theorem calculate_delay_without_jitter_witness:
  "calculate_delay reference_platform scenario_D 0 world0 = (Inr 10, world0) \<and>
   calculate_delay reference_platform scenario_D 1 world0 = (Inr 15, world0)"
proof -
  have j: "\<not> jitter scenario_D" by (simp add: scenario_D_def)
  have 0: "float_pow reference_platform (exponential_base scenario_D) 0 = Inr 1"
    and 1: "float_pow reference_platform (exponential_base scenario_D) 1 = Inr 5"
    by (simp_all add: reference_platform_def scenario_D_def exact_pow_def)
  from calculate_delay_without_jitter [OF j, of reference_platform 0 1 world0 undefined]
    calculate_delay_without_jitter [OF j, of reference_platform 1 5 world0 undefined] 0 1
  show ?thesis
    by (simp add: reference_platform_def scenario_D_def)
qed

text \<open>
  Without the bound on the power the equation fails: under the policy of scenario A
  (\<open>d0 = 1\<close>, \<open>b = 2\<close>, \<open>M = 60\<close>, valid, jitter off) \<^verbatim>\<open>calculate_delay(1024)\<close> raises
  \<^verbatim>\<open>OverflowError\<close> in \<^verbatim>\<open>2.0 ** 1024\<close> where \<open>min (d0 * b^k) M\<close> is 60.
\<close>

theorem calculate_delay_overflow_counterexample:
  "valid_policy scenario_A \<and> \<not> jitter scenario_A \<and>
   calculate_delay reference_platform scenario_A 1024 world0 = (Inl overflow_error, world0) \<and>
   fst (calculate_delay reference_platform scenario_A 1024 world0) \<noteq>
     Inr (min (initial_delay scenario_A * exponential_base scenario_A ^ 1024) (max_delay scenario_A))"
  by (simp add: valid_policy_def calculate_delay_def reference_platform_def scenario_A_def exact_pow_def)

text \<open>
  C9. With jitter enabled, when the power \<^verbatim>\<open>exponential_base ** k\<close> is the float \<open>p\<close>,
  \<^verbatim>\<open>calculate_delay(k)\<close> draws one sample \<open>u\<close> from \<^verbatim>\<open>random.uniform\<close> over the jitter
  range and returns \<open>min (initial_delay * p) max_delay * u\<close> in float arithmetic: the
  factor is applied after the clamp. When the power overflows, the call raises the
  \<^verbatim>\<open>OverflowError\<close> and draws nothing. There are a valid policy, an attempt and a
  sample \<open>u > 1\<close> within the range for which the returned wait exceeds \<open>max_delay\<close>.
\<close>

theorem calculate_delay_with_jitter:
  "(jitter cfg \<and> float_pow P (exponential_base cfg) k = Inr p \<longrightarrow>
      calculate_delay P cfg k w =
        (Inr (float_mul P (min (float_mul P (initial_delay cfg) p) (max_delay cfg))
                (random_uniform P (draws w) (fst (jitter_range cfg)) (snd (jitter_range cfg)))),
         w\<lparr>draws := draws w + 1\<rparr>)) \<and>
   (float_pow P (exponential_base cfg) k = Inl err \<longrightarrow>
      calculate_delay P cfg k w = (Inl err, w)) \<and>
   (\<exists>cfg' k' u. valid_policy cfg' \<and> jitter cfg' \<and>
      fst (jitter_range cfg') \<le> u \<and> u \<le> snd (jitter_range cfg') \<and> 1 < u \<and>
      (\<exists>d. fst (calculate_delay (reference_platform\<lparr>random_uniform := \<lambda>n a b. u\<rparr>) cfg' k' world0)
              = Inr d \<and> max_delay cfg' < d))"
proof (intro conjI impI)
  assume "jitter cfg \<and> float_pow P (exponential_base cfg) k = Inr p"
  then show "calculate_delay P cfg k w =
        (Inr (float_mul P (min (float_mul P (initial_delay cfg) p) (max_delay cfg))
                (random_uniform P (draws w) (fst (jitter_range cfg)) (snd (jitter_range cfg)))),
         w\<lparr>draws := draws w + 1\<rparr>)"
    by (simp add: calculate_delay_def split: prod.splits)
next
  assume "float_pow P (exponential_base cfg) k = Inl err"
  then show "calculate_delay P cfg k w = (Inl err, w)"
    by (simp add: calculate_delay_def)
next
  have "valid_policy scenario_D_jitter \<and> jitter scenario_D_jitter \<and>
      fst (jitter_range scenario_D_jitter) \<le> 3/2 \<and> 3/2 \<le> snd (jitter_range scenario_D_jitter) \<and>
      (1::real) < 3/2 \<and>
      fst (calculate_delay (reference_platform\<lparr>random_uniform := \<lambda>n a b. 3/2\<rparr>)
             scenario_D_jitter 1 world0) = Inr (45/2) \<and>
      max_delay scenario_D_jitter < 45/2"
    by (simp add: valid_policy_def scenario_D_jitter_def scenario_D_def calculate_delay_def
        reference_platform_def exact_pow_def)
  then show "\<exists>cfg' k' u. valid_policy cfg' \<and> jitter cfg' \<and>
      fst (jitter_range cfg') \<le> u \<and> u \<le> snd (jitter_range cfg') \<and> 1 < u \<and>
      (\<exists>d. fst (calculate_delay (reference_platform\<lparr>random_uniform := \<lambda>n a b. u\<rparr>) cfg' k' world0)
              = Inr d \<and> max_delay cfg' < d)"
    by blast
qed

text \<open>Scenario D with jitter and the sample 3/2: attempt 1 waits 22.5 > 15.\<close>

theorem calculate_delay_with_jitter_witness:
  "jitter scenario_D_jitter \<and>
   fst (calculate_delay reference_platform scenario_D_jitter 1 world0) = Inr (45/2) \<and>
   max_delay scenario_D_jitter = 15"
proof -
  have 1: "float_pow reference_platform (exponential_base scenario_D_jitter) 1 = Inr 5"
    by (simp add: reference_platform_def scenario_D_jitter_def scenario_D_def exact_pow_def)
  from calculate_delay_with_jitter [of scenario_D_jitter reference_platform 1 5 world0 undefined] 1
  show ?thesis
    by (simp add: reference_platform_def scenario_D_jitter_def scenario_D_def)
qed

text \<open>
  Without the bound on the power there is no delay at all: under the default policy
  (jitter on, range (0.5, 1.5)) \<^verbatim>\<open>calculate_delay(1024)\<close> raises \<^verbatim>\<open>OverflowError\<close>.
\<close>

theorem calculate_delay_jitter_overflow_counterexample:
  "valid_policy RetryConfig_default \<and> jitter RetryConfig_default \<and>
   calculate_delay reference_platform RetryConfig_default 1024 world0 = (Inl overflow_error, world0)"
  by (simp add: valid_policy_def calculate_delay_def reference_platform_def RetryConfig_default_def
      exact_pow_def)

section \<open>The decorator executors\<close>

text \<open>
  C1. The claim: when every call raises a retryable failure, both executors call the
  operation \<open>max_retries + 1\<close> times and raise the failure of the last call,
  unmodified. It fails for a failure whose text holds a replacement field. Under the
  policy of scenario A and the retryable set \<^verbatim>\<open>(ValueError, ConnectionError)\<close>, an
  operation \<^verbatim>\<open>fetch\<close> that always raises \<^verbatim>\<open>ConnectionError('{x}')\<close> is called 4 times;
  then \<^verbatim>\<open>logger.error(..., exc_info=True)\<close> formats the text
  \<^verbatim>\<open>Function fetch failed after 3 retries: {x}\<close> and raises \<^verbatim>\<open>KeyError('x')\<close>
  inside the handler, so the caller gets the \<^verbatim>\<open>KeyError\<close> and the \<^verbatim>\<open>raise\<close> that
  would re-raise the \<^verbatim>\<open>ConnectionError\<close> is never reached.
\<close>

theorem exhausted_failure_replaced_by_KeyError:
  "fst (sync_retry reference_platform (Some scenario_A) [ValueError, ConnectionError] None
          (Inr ''fetch'') brace_fails world0) = Raised key_error_x \<and>
   calls (snd (sync_retry reference_platform (Some scenario_A) [ValueError, ConnectionError] None
          (Inr ''fetch'') brace_fails world0)) = 4 \<and>
   fst (async_retry reference_platform (Some scenario_A) [ValueError, ConnectionError] None
          (Inr ''fetch'') brace_fails world0) = Raised key_error_x \<and>
   calls (snd (async_retry reference_platform (Some scenario_A) [ValueError, ConnectionError] None
          (Inr ''fetch'') brace_fails world0)) = 4 \<and>
   brace_fails 3 = Inl brace_failure \<and> key_error_x \<noteq> brace_failure"
proof -
  have c: "issubclass (exc_type brace_failure) [ValueError, ConnectionError]"
    by (simp add: brace_failure_def issubclass_def issubclass1_def mro.simps)
  then have r: "\<forall>k<3. retryable_failure [ValueError, ConnectionError] brace_fails k"
    by (simp add: retryable_failure_def brace_fails_def)
  have m: "exhausted_message (Inr ''fetch'') scenario_A brace_failure =
      Inr ''Function fetch failed after 3 retries: {x}''"
    by (simp add: exhausted_message_def scenario_A_def brace_failure_def str_int_3)
  have l: "logger_error reference_platform ''Function fetch failed after 3 retries: {x}'' =
      Some key_error_x"
    by (simp add: reference_platform_def format_exhausted)
  have "\<exists>w. calls w = 4 \<and>
      retry_loop reference_platform sl scenario_A [ValueError, ConnectionError] None (Inr ''fetch'')
        brace_fails (attempts scenario_A) None world0 = (Raised key_error_x, w)" for sl
    using run_terminal [where cfg=scenario_A and n=3 and m=3
        and excs="[ValueError, ConnectionError]" and func=brace_fails and e=brace_failure
        and P=reference_platform and nm="Inr ''fetch''" and name="''fetch''" and sl=sl and cb=None]
      scenario_A_retries r c scenario_A_no_overflow
    by (simp add: brace_fails_def m log_then_raise_fails [OF l])
  from this [of TimeSleep] this [of AsyncioSleep] show ?thesis
    by (auto simp: sync_retry_loop async_retry_loop brace_fails_def key_error_x_def
        brace_failure_def)
qed




text \<open>
  C4. The claim: a failure outside the retryable set propagates to the caller at once,
  so an operation that always fails so is called exactly once. The operation is called
  once, with no wait and no callback, but the failure that reaches the caller is not
  always the operation's: under the policy of scenario A and the retryable set
  \<^verbatim>\<open>(ValueError, ConnectionError)\<close>, for an operation \<^verbatim>\<open>fetch\<close> that raises
  \<^verbatim>\<open>ValidationError('{x}')\<close>, \<^verbatim>\<open>logger.error(..., exc_info=True)\<close> formats the text
  \<^verbatim>\<open>Function fetch raised non-retryable exception: ValidationError: {x}\<close> and raises
  \<^verbatim>\<open>KeyError('x')\<close>, which the caller gets in place of the \<^verbatim>\<open>ValidationError\<close>.
\<close>

theorem non_retryable_failure_replaced_by_KeyError:
  "fst (sync_retry reference_platform (Some scenario_A) [ValueError, ConnectionError] None
          (Inr ''fetch'') always_invalid world0) = Raised key_error_x \<and>
   calls (snd (sync_retry reference_platform (Some scenario_A) [ValueError, ConnectionError] None
          (Inr ''fetch'') always_invalid world0)) = 1 \<and>
   fst (async_retry reference_platform (Some scenario_A) [ValueError, ConnectionError] None
          (Inr ''fetch'') always_invalid world0) = Raised key_error_x \<and>
   calls (snd (async_retry reference_platform (Some scenario_A) [ValueError, ConnectionError] None
          (Inr ''fetch'') always_invalid world0)) = 1 \<and>
   always_invalid 0 = Inl invalid_brace \<and> key_error_x \<noteq> invalid_brace \<and>
   \<not> issubclass (exc_type invalid_brace) [ValueError, ConnectionError]"
proof -
  have c: "\<not> issubclass (exc_type invalid_brace) [ValueError, ConnectionError]"
    by (simp add: invalid_brace_def issubclass_def issubclass1_def mro.simps)
  have m: "non_retryable_message (Inr ''fetch'') invalid_brace =
      Inr ''Function fetch raised non-retryable exception: ValidationError: {x}''"
    by (simp add: non_retryable_message_def invalid_brace_def)
  have l: "logger_error reference_platform
      ''Function fetch raised non-retryable exception: ValidationError: {x}'' = Some key_error_x"
    by (simp add: reference_platform_def format_non_retryable)
  have "\<exists>w. calls w = 1 \<and>
      retry_loop reference_platform sl scenario_A [ValueError, ConnectionError] None (Inr ''fetch'')
        always_invalid (attempts scenario_A) None world0 = (Raised key_error_x, w)" for sl
    using run_terminal [where cfg=scenario_A and n=3 and m=0
        and excs="[ValueError, ConnectionError]" and func=always_invalid and e=invalid_brace
        and P=reference_platform and nm="Inr ''fetch''" and name="''fetch''" and sl=sl and cb=None]
      scenario_A_retries c
    by (simp add: always_invalid_def m log_then_raise_fails [OF l])
  from this [of TimeSleep] this [of AsyncioSleep] c show ?thesis
    by (auto simp: sync_retry_loop async_retry_loop always_invalid_def key_error_x_def
        invalid_brace_def)
qed






section \<open>Retryable kinds\<close>

text \<open>
  C5. The claim: a failure is retried exactly when its kind equals an entry of the
  retryable set or descends from one, and any other kind propagates on its first
  occurrence, unmodified. The test the code applies is the one of the claim
  (\<open>issubclass_iff\<close>), but a failure that does not match is not always propagated
  unmodified: \<^verbatim>\<open>DataFetchError('{x}')\<close> does not match the set \<^verbatim>\<open>(APIError,)\<close>, and
  both executors raise \<^verbatim>\<open>KeyError('x')\<close> in its place, from
  \<^verbatim>\<open>logger.error(..., exc_info=True)\<close> in the handler of non-retryable failures.
\<close>

theorem non_matching_failure_replaced_by_KeyError:
  "\<not> in_retryable_set (exc_type fetch_brace) [APIError] \<and>
   fetch_fails 0 = Inl fetch_brace \<and> key_error_x \<noteq> fetch_brace \<and>
   fst (sync_retry reference_platform (Some scenario_A) [APIError] None
          (Inr ''fetch'') fetch_fails world0) = Raised key_error_x \<and>
   fst (async_retry reference_platform (Some scenario_A) [APIError] None
          (Inr ''fetch'') fetch_fails world0) = Raised key_error_x"
proof -
  have c: "\<not> issubclass (exc_type fetch_brace) [APIError]"
    by (simp add: fetch_brace_def issubclass_def issubclass1_def mro.simps)
  have m: "non_retryable_message (Inr ''fetch'') fetch_brace =
      Inr ''Function fetch raised non-retryable exception: DataFetchError: {x}''"
    by (simp add: non_retryable_message_def fetch_brace_def)
  have l: "logger_error reference_platform
      ''Function fetch raised non-retryable exception: DataFetchError: {x}'' = Some key_error_x"
    by (simp add: reference_platform_def format_non_matching)
  have "\<exists>w. calls w = 1 \<and>
      retry_loop reference_platform sl scenario_A [APIError] None (Inr ''fetch'')
        fetch_fails (attempts scenario_A) None world0 = (Raised key_error_x, w)" for sl
    using run_terminal [where cfg=scenario_A and n=3 and m=0
        and excs="[APIError]" and func=fetch_fails and e=fetch_brace
        and P=reference_platform and nm="Inr ''fetch''" and name="''fetch''" and sl=sl and cb=None]
      scenario_A_retries c
    by (simp add: fetch_fails_def m log_then_raise_fails [OF l])
  from this [of TimeSleep] this [of AsyncioSleep] c show ?thesis
    by (auto simp: sync_retry_loop async_retry_loop fetch_fails_def key_error_x_def
        fetch_brace_def issubclass_iff)
qed

section \<open>The retry scope\<close>

text \<open>
  C6. The claim: \<^verbatim>\<open>RetryContext.__exit__\<close> suppresses a retryable failure when
  \<open>attempt < max_retries\<close>, after a wait of \<^verbatim>\<open>calculate_delay(attempt)\<close> and with
  \<open>attempt\<close> incremented by 1 (\<open>exit_suppresses\<close>), and lets it propagate without a
  wait when \<open>attempt \<ge> max_retries\<close>. The latter fails for a failure whose text holds
  a replacement field: for a guard under the policy of scenario A with \<open>attempt = 3\<close>,
  \<^verbatim>\<open>__exit__\<close> called with \<^verbatim>\<open>ConnectionError('{x}')\<close> does not return \<^verbatim>\<open>False\<close>:
  \<^verbatim>\<open>logger.error(..., exc_info=True)\<close> formats the text
  \<^verbatim>\<open>Retry context failed after 3 retries: {x}\<close> and \<^verbatim>\<open>__exit__\<close> raises
  \<^verbatim>\<open>KeyError('x')\<close>, which leaves the \<^verbatim>\<open>with\<close> statement in place of the failure.
\<close>

theorem guard_exhaustion_raises_KeyError:
  "RetryContext_exit reference_platform used_up (Some brace_failure) world0 =
     (Inl key_error_x, used_up\<lparr>last_exception := Some brace_failure\<rparr>, world0) \<and>
   issubclass (exc_type brace_failure) (exceptions used_up) \<and>
   max_retries (config used_up) \<le> int (attempt used_up) \<and>
   key_error_x \<noteq> brace_failure"
proof -
  have x: "exceptions used_up = [ValueError, ConnectionError]" "attempt used_up = 3"
    "max_retries (config used_up) = 3" "config used_up = scenario_A"
    by (simp_all add: used_up_def RetryContext_init_def config_or_default_def scenario_A_def)
  have c: "issubclass (exc_type brace_failure) [ValueError, ConnectionError]"
    by (simp add: brace_failure_def issubclass_def issubclass1_def mro.simps)
  have m: "context_message scenario_A brace_failure =
      Inr ''Retry context failed after 3 retries: {x}''"
    by (simp add: context_message_def scenario_A_def brace_failure_def str_int_3)
  have l: "logger_error reference_platform ''Retry context failed after 3 retries: {x}'' =
      Some key_error_x"
    by (simp add: reference_platform_def format_context)
  show ?thesis
    using c
    by (simp add: RetryContext_exit_def Let_def x m error_log_def l)
       (simp add: key_error_x_def brace_failure_def scenario_A_def)
qed

text \<open>
  C10. A new \<^verbatim>\<open>RetryContext\<close> has \<open>attempt = 0\<close> and \<open>last_exception = None\<close>. Every
  call of \<^verbatim>\<open>__exit__\<close> with a failure whose kind is in the retryable set leaves that
  failure in \<open>last_exception\<close>, whatever the call then does; a call with a failure
  outside the set leaves \<open>attempt\<close> and \<open>last_exception\<close> as they were.
\<close>

theorem last_exception_records_retryable_failure:
  "attempt (RetryContext_init copt excs) = 0 \<and>
   last_exception (RetryContext_init copt excs) = None \<and>
   (issubclass (exc_type e) (exceptions ctx) \<longrightarrow>
      last_exception (fst (snd (RetryContext_exit P ctx (Some e) w))) = Some e) \<and>
   (\<not> issubclass (exc_type e) (exceptions ctx) \<longrightarrow>
      attempt (fst (snd (RetryContext_exit P ctx (Some e) w))) = attempt ctx \<and>
      last_exception (fst (snd (RetryContext_exit P ctx (Some e) w))) = last_exception ctx)"
  using exit_records [of e ctx P w] exit_not_retryable [of e ctx P w]
  by (simp add: RetryContext_init_def)

text \<open>
  A guard whose retries are used up records a retryable failure, and is left as it
  was by a \<^verbatim>\<open>ValidationError\<close>.
\<close>

theorem last_exception_records_retryable_failure_witness:
  "last_exception (fst (snd (RetryContext_exit reference_platform used_up (Some (net_error 3)) world0))) =
     Some (net_error 3) \<and>
   attempt (fst (snd (RetryContext_exit reference_platform used_up
     (Some (Exc ValidationError ''bad input'')) world0))) = 3 \<and>
   last_exception (fst (snd (RetryContext_exit reference_platform used_up
     (Some (Exc ValidationError ''bad input'')) world0))) = None \<and>
   attempt (RetryContext_init None []) = 0"
proof -
  have x: "exceptions used_up = [ValueError, ConnectionError]" "attempt used_up = 3"
    "last_exception used_up = None"
    by (simp_all add: used_up_def RetryContext_init_def)
  have i: "\<not> issubclass (exc_type (Exc ValidationError ''bad input'')) [ValueError, ConnectionError]"
    by (simp add: issubclass_def issubclass1_def mro.simps)
  from last_exception_records_retryable_failure
    [of None "[]" "net_error 3" used_up reference_platform world0]
   last_exception_records_retryable_failure
    [of None "[]" "Exc ValidationError ''bad input''" used_up reference_platform world0]
   net_error_retryable [of 3] i x
  show ?thesis by simp
qed

end
